theory Spec2Isabelle
  imports Main "HOL-Library.Sublist" "HOL-Library.AList"
begin

section \<open>Strings\<close>

text \<open>
  JavaScript strings are modelled as \<open>string\<close>: the list of the bytes of the text in
  UTF-8. Every constant the program compares against is ASCII, and a suffix or prefix
  test on well-formed text gives the same answer on bytes as on UTF-16 code units, so
  the difference does not show in what follows. The one place where characters beyond
  ASCII matter is the regular expression of \<open>rewriteSourceMappingURL\<close>, whose \<open>.\<close> stops
  at U+2028 and U+2029 as well; their UTF-8 encodings are written out there.
\<close>

definition endsWith :: "string \<Rightarrow> string \<Rightarrow> bool" where
  \<comment> \<open>\<open>String.prototype.endsWith\<close>: the last \<open>length suf\<close> characters of \<open>s\<close> are \<open>suf\<close>.\<close>
  "endsWith s suf =
     (length suf \<le> length s \<and> drop (length s - length suf) s = suf)"

definition startsWith :: "string \<Rightarrow> string \<Rightarrow> bool" where
  \<comment> \<open>\<open>String.prototype.startsWith\<close>.\<close>
  "startsWith s pre = (take (length pre) s = pre)"

definition trimSuffix :: "string \<Rightarrow> string \<Rightarrow> string" where
  \<comment> \<open>Modelled from the spec: \<open>trimSuffix\<close> is imported from \<open>../utils\<close>, which is not among
      the sources. The spec describes it as stripping a trailing suffix if present
      (section 4.3, rule 5) and as replacing the role-specific suffix (section 3).\<close>
  "trimSuffix input suf =
     (if endsWith input suf then take (length input - length suf) input else input)"

section \<open>Path policy (\<open>worker.ts\<close>)\<close>

text \<open>
  The guards \<open>if (!this.data.extname) return path\<close> test JavaScript truthiness: both
  \<open>undefined\<close> and the empty string leave the path alone.
\<close>

definition JS_EXT :: string where "JS_EXT = ''.js''"
definition MAP_EXT :: string where "MAP_EXT = ''.map''"
definition JS_MAP_EXT :: string where "JS_MAP_EXT = JS_EXT @ MAP_EXT"
definition DTS_EXT :: string where "DTS_EXT = ''.d.ts''"
definition DTS_MAP_EXT :: string where "DTS_MAP_EXT = DTS_EXT @ MAP_EXT"
definition JSON_EXT :: string where "JSON_EXT = ''.json''"

text \<open>
  The fields of \<open>WorkerOptions\<close> that the worker reads. \<open>extname\<close> and \<open>dtsExtName\<close> have
  type \<open>string | undefined\<close>; \<open>None\<close> is \<open>undefined\<close>.
\<close>

record WorkerOptions =
  data_extname :: "string option"
  data_dtsExtName :: "string option"
  data_transpileOnly :: bool
  data_clean :: bool
  data_projects :: "string list"

definition orElse :: "string option \<Rightarrow> string \<Rightarrow> string" where
  \<comment> \<open>\<open>x || dflt\<close> on a \<open>string | undefined\<close>.\<close>
  "orElse x dflt = (case x of None \<Rightarrow> dflt | Some e \<Rightarrow> if e = [] then dflt else e)"

definition getJSPath :: "WorkerOptions \<Rightarrow> string \<Rightarrow> string" where
  "getJSPath d path =
     (case data_extname d of
        None \<Rightarrow> path
      | Some e \<Rightarrow> if e = [] then path else trimSuffix path JS_EXT @ e)"

definition getDtsPath :: "WorkerOptions \<Rightarrow> string \<Rightarrow> string" where
  "getDtsPath d path =
     (case data_dtsExtName d of
        None \<Rightarrow> path
      | Some e \<Rightarrow> if e = [] then path else trimSuffix path DTS_EXT @ e)"

definition getJSMapPath :: "WorkerOptions \<Rightarrow> string \<Rightarrow> string" where
  "getJSMapPath d path =
     (case data_extname d of
        None \<Rightarrow> path
      | Some e \<Rightarrow> if e = [] then path else trimSuffix path JS_MAP_EXT @ e @ MAP_EXT)"

definition getDtsMapPath :: "WorkerOptions \<Rightarrow> string \<Rightarrow> string" where
  "getDtsMapPath d path =
     (case data_dtsExtName d of
        None \<Rightarrow> path
      | Some e \<Rightarrow> if e = [] then path else trimSuffix path DTS_MAP_EXT @ e @ MAP_EXT)"

definition rewritePath :: "WorkerOptions \<Rightarrow> string \<Rightarrow> bool \<Rightarrow> string" where
  \<comment> \<open>The third argument is \<open>ignoreDts\<close> (default \<open>false\<close> in the source).\<close>
  "rewritePath d path ignoreDts =
     (if endsWith path JS_EXT then getJSPath d path
      else if endsWith path JS_MAP_EXT then getJSMapPath d path
      else if ignoreDts = False then
        (if endsWith path DTS_EXT then getDtsPath d path
         else if endsWith path DTS_MAP_EXT then getDtsMapPath d path
         else path)
      else path)"

section \<open>Virtual file system adapter (\<open>worker.ts\<close>, \<open>createSystem\<close>)\<close>

datatype js_error =
    SyntaxError  \<comment> \<open>thrown by \<open>JSON.parse\<close> on malformed text\<close>
  | TypeError    \<comment> \<open>thrown by a method call on \<open>undefined\<close>, \<open>null\<close> or a value without the method\<close>
  | BundleError  \<comment> \<open>\<open>new Error("Doesn't work on bundles.")\<close>\<close>
  | HostError string  \<comment> \<open>whatever the underlying system throws\<close>

text \<open>
  The host's \<open>ts.System\<close> is an object whose methods read or change the disk. The model
  keeps the disk as a state of type \<open>'st\<close>; each method takes the state, and a writing
  method returns the new one (or the exception it throws). \<open>deleteFile\<close> is an optional
  member of \<open>ts.System\<close>.
\<close>

record 'st System =
  sys_fileExists :: "'st \<Rightarrow> string \<Rightarrow> bool"
  sys_readFile :: "'st \<Rightarrow> string \<Rightarrow> string option"
  sys_writeFile :: "'st \<Rightarrow> string \<Rightarrow> string \<Rightarrow> js_error + 'st"
  sys_deleteFile :: "('st \<Rightarrow> string \<Rightarrow> js_error + 'st) option"
  sys_directoryExists :: "'st \<Rightarrow> string \<Rightarrow> bool"

text \<open>
  Values produced by \<open>JSON.parse\<close>. An object is kept as the list of its members in
  order; assigning to a member that exists keeps its place, assigning to a new one
  appends it (\<open>AList.update\<close>). Numbers are carried as an opaque payload.
\<close>

datatype json =
    JNull
  | JBoolean bool
  | JNumber int
  | JString string
  | JArray "json list"
  | JObject "(string \<times> json) list"

text \<open>
  \<open>JSON.parse\<close> and \<open>JSON.stringify\<close> are builtins of the runtime and are parameters of
  the model; \<open>None\<close> stands for the \<open>SyntaxError\<close> that \<open>JSON.parse\<close> throws.
\<close>

record JSON_api =
  JSON_parse :: "string \<Rightarrow> json option"
  JSON_stringify :: "json \<Rightarrow> string"

definition sourceMappingURL :: string where
  "sourceMappingURL = ''//# sourceMappingURL=''"

fun untilLineTerminator :: "string \<Rightarrow> string" where
  \<comment> \<open>The longest prefix that \<open>.+\<close> can match: \<open>.\<close> matches every character but the line
      terminators LF, CR, U+2028 (bytes E2 80 A8) and U+2029 (bytes E2 80 A9).\<close>
  "untilLineTerminator [] = []"
| "untilLineTerminator (c # cs) =
     (if c = CHR 0x0A \<or> c = CHR 0x0D then []
      else if c = CHR 0xE2 \<and> (take 2 cs = [CHR 0x80, CHR 0xA8] \<or> take 2 cs = [CHR 0x80, CHR 0xA9])
      then []
      else c # untilLineTerminator cs)"

definition capturedPath :: "string \<Rightarrow> string" where
  \<comment> \<open>The group \<open>(.+)\<close> of \<open>/\/\/# sourceMappingURL=(.+)/g\<close> for a match starting at the head
      of \<open>s\<close>: greedy, up to the next line terminator.\<close>
  "capturedPath s = untilLineTerminator (drop (length sourceMappingURL) s)"

function rewriteSourceMappingURL :: "WorkerOptions \<Rightarrow> string \<Rightarrow> string" where
  "rewriteSourceMappingURL d [] = []"
| "rewriteSourceMappingURL d (c # cs) =
     (if startsWith (c # cs) sourceMappingURL \<and> capturedPath (c # cs) \<noteq> [] then
        sourceMappingURL @ rewritePath d (capturedPath (c # cs)) False @
        rewriteSourceMappingURL d
          (drop (length sourceMappingURL + length (capturedPath (c # cs))) (c # cs))
      else c # rewriteSourceMappingURL d cs)"
  by pat_completeness auto
termination
  by (relation "measure (\<lambda>(d, s). length s)") (auto simp: sourceMappingURL_def)

definition rewriteSourceMap :: "JSON_api \<Rightarrow> WorkerOptions \<Rightarrow> string \<Rightarrow> js_error + string" where
  \<comment> \<open>\<open>json.file\<close> is \<open>undefined\<close> unless the parsed value is an object with that member
      (and reading it from \<open>null\<close> throws); \<open>rewritePath\<close> then calls \<open>endsWith\<close> on it,
      which throws unless it is a string.\<close>
  "rewriteSourceMap J d data =
     (case JSON_parse J data of
        None \<Rightarrow> Inl SyntaxError
      | Some (JObject members) \<Rightarrow>
          (case map_of members ''file'' of
             Some (JString file) \<Rightarrow>
               Inr (JSON_stringify J
                     (JObject (AList.update ''file'' (JString (rewritePath d file False)) members)))
           | _ \<Rightarrow> Inl TypeError)
      | Some _ \<Rightarrow> Inl TypeError)"

definition getReadPaths :: "WorkerOptions \<Rightarrow> string \<Rightarrow> string list" where
  "getReadPaths d path =
     [rewritePath d path True] @ (if endsWith path JS_EXT then [path] else [])"

definition newData :: "JSON_api \<Rightarrow> WorkerOptions \<Rightarrow> string \<Rightarrow> string \<Rightarrow> js_error + string" where
  \<comment> \<open>The immediately invoked function inside \<open>writeFile\<close>.\<close>
  "newData J d path data =
     (if endsWith path JS_EXT \<or> endsWith path DTS_EXT then Inr (rewriteSourceMappingURL d data)
      else if endsWith path JS_MAP_EXT \<or> endsWith path DTS_MAP_EXT then rewriteSourceMap J d data
      else Inr data)"

definition createSystem :: "JSON_api \<Rightarrow> WorkerOptions \<Rightarrow> 'st System \<Rightarrow> 'st System" where
  "createSystem J d sys =
     sys\<lparr>
       sys_fileExists := (\<lambda>st inputPath.
          foldl (\<lambda>result path. result \<or> sys_fileExists sys st path) False
            (getReadPaths d inputPath)),
       sys_readFile := (\<lambda>st inputPath.
          foldl (\<lambda>result path. case result of Some r \<Rightarrow> Some r | None \<Rightarrow> sys_readFile sys st path)
            None (getReadPaths d inputPath)),
       sys_writeFile := (\<lambda>st path data.
          case newData J d path data of
            Inl e \<Rightarrow> Inl e
          | Inr patched \<Rightarrow> sys_writeFile sys st (rewritePath d path False) patched),
       sys_deleteFile := Some (\<lambda>st path.
          case sys_deleteFile sys of
            None \<Rightarrow> Inr st
          | Some del \<Rightarrow> del st (rewritePath d path False))
     \<rparr>"

section \<open>Declaration specifier rewriter (\<open>rewriteDtsImport\<close>)\<close>

subsection \<open>Library functions of \<open>path\<close>\<close>

text \<open>
  \<open>extname\<close> is Node's \<open>path.extname\<close> (POSIX flavour): trailing slashes are ignored, the
  last segment of the path is taken, and the extension runs from the last dot of that
  segment to its end. It is empty when the segment has no dot, when its only dot is its
  first character, and when the segment is \<open>..\<close>.
\<close>

definition lastSegment :: "string \<Rightarrow> string" where
  "lastSegment path =
     rev (takeWhile (\<lambda>c. c \<noteq> CHR ''/'')
            (dropWhile (\<lambda>c. c = CHR ''/'') (rev path)))"

definition extname :: "string \<Rightarrow> string" where
  "extname path =
     (let base = lastSegment path;
          ext = rev (takeWhile (\<lambda>c. c \<noteq> CHR ''.'') (rev base))
      in if CHR ''.'' \<notin> set base then []
         else if Suc (length ext) = length base then []
         else if base = ''..'' then []
         else CHR ''.'' # ext)"

text \<open>
  \<open>resolve\<close> depends on the working directory of the process and, like \<open>dirname\<close>, is
  a parameter of the model.
\<close>

record PathModule =
  path_resolve :: "string \<Rightarrow> string \<Rightarrow> string"
  path_dirname :: "string \<Rightarrow> string"

subsection \<open>Syntax trees\<close>

text \<open>
  The node shapes the transformer tells apart, with the members it passes on to the
  factory, and one constructor for every other kind of node, which carries its
  \<open>SyntaxKind\<close> number and its children in the order \<open>visitEachChild\<close> visits them.
\<close>

datatype Node =
    StringLiteral string
  | Identifier string
  | ImportKeyword
  | ImportDeclaration "Node list" "Node option" Node "Node option"
      \<comment> \<open>modifiers, importClause, moduleSpecifier, assertClause\<close>
  | ExportDeclaration "Node list" bool "Node option" "Node option" "Node option"
      \<comment> \<open>modifiers, isTypeOnly, exportClause, moduleSpecifier, assertClause\<close>
  | CallExpression Node "Node list" "Node list"
      \<comment> \<open>expression, typeArguments, arguments\<close>
  | OtherNode nat "Node list"

text \<open>
  What the transformer takes from \<open>options.ts\<close>: the directory test of \<open>sys\<close> and the
  \<open>SyntaxKind\<close> numbers of the compiler in use (they change between compiler versions).
  The options also carry \<open>system\<close>, which this transformer never reads.
\<close>

record TS =
  ts_directoryExists :: "string \<Rightarrow> bool"
  SyntaxKind_StringLiteral :: nat
  SyntaxKind_Identifier :: nat
  SyntaxKind_ImportKeyword :: nat
  SyntaxKind_ImportDeclaration :: nat
  SyntaxKind_ExportDeclaration :: nat
  SyntaxKind_CallExpression :: nat

record RewriteImportTransformerOptions =
  opt_extname :: string
  opt_dtsExtName :: string
  opt_ts :: TS

record TransformationContext =
  resolveJsonModule :: bool  \<comment> \<open>\<open>ctx.getCompilerOptions().resolveJsonModule\<close>, as a truth value\<close>

fun kind :: "TS \<Rightarrow> Node \<Rightarrow> nat" where
  "kind t (StringLiteral _) = SyntaxKind_StringLiteral t"
| "kind t (Identifier _) = SyntaxKind_Identifier t"
| "kind t ImportKeyword = SyntaxKind_ImportKeyword t"
| "kind t (ImportDeclaration _ _ _ _) = SyntaxKind_ImportDeclaration t"
| "kind t (ExportDeclaration _ _ _ _ _) = SyntaxKind_ExportDeclaration t"
| "kind t (CallExpression _ _ _) = SyntaxKind_CallExpression t"
| "kind t (OtherNode k _) = k"

subsection \<open>The transformer\<close>

definition isRelativePath :: "string \<Rightarrow> bool" where
  "isRelativePath path = (startsWith path ''./'' \<or> startsWith path ''../'')"

definition isDirectory ::
  "PathModule \<Rightarrow> RewriteImportTransformerOptions \<Rightarrow> string \<Rightarrow> string \<Rightarrow> bool" where
  \<comment> \<open>The third argument is \<open>sourceFile.fileName\<close>.\<close>
  "isDirectory P options sourcePath path =
     ts_directoryExists (opt_ts options) (path_resolve P (path_dirname P sourcePath) path)"

fun updateModuleSpecifier ::
  "PathModule \<Rightarrow> RewriteImportTransformerOptions \<Rightarrow> TransformationContext \<Rightarrow> string \<Rightarrow> Node \<Rightarrow> Node"
where
  "updateModuleSpecifier P options ctx sourcePath (StringLiteral text) =
     (if \<not> isRelativePath text then StringLiteral text
      else if extname text = ''.cjs'' then StringLiteral text
      else if isDirectory P options sourcePath text then
        StringLiteral (text @ ''/index'' @ opt_extname options)
      else if extname text = JSON_EXT \<and> resolveJsonModule ctx then StringLiteral text
      else StringLiteral
             ((if extname text = JS_EXT then trimSuffix text JS_EXT else text) @ opt_extname options))"
| "updateModuleSpecifier P options ctx sourcePath node = node"

definition recordRecent :: "Node \<Rightarrow> Node list \<Rightarrow> Node list" where
  \<comment> \<open>\<open>if (recentNodes.unshift(node) > 3) recentNodes.pop()\<close>\<close>
  "recordRecent node recentNodes =
     (if length (node # recentNodes) > 3 then butlast (node # recentNodes)
      else node # recentNodes)"

definition typePositionLiteral ::
  "PathModule \<Rightarrow> RewriteImportTransformerOptions \<Rightarrow> TransformationContext \<Rightarrow> string \<Rightarrow> string \<Rightarrow> Node"
where
  \<comment> \<open>The body of the branch for a string literal that follows a mapped type and a
      template literal type span (lines 160 to 184 of the source).\<close>
  "typePositionLiteral P options ctx sourcePath text =
     (if text \<noteq> ''..'' \<and> \<not> isRelativePath text then StringLiteral text
      else if extname text = JSON_EXT \<and> resolveJsonModule ctx then StringLiteral text
      else if isDirectory P options sourcePath text then
        StringLiteral (text @ ''/index'' @ opt_extname options)
      else StringLiteral
             ((if extname text = JS_EXT then trimSuffix text JS_EXT else text) @ opt_extname options))"

definition matchesTypePosition :: "TS \<Rightarrow> Node list \<Rightarrow> bool" where
  \<comment> \<open>\<open>recentNodes.length == 3 && isStringLiteral(node) && recentNodes[1].kind == 200 &&
      recentNodes[2].kind == 204\<close>, on the list that already holds the current node.\<close>
  "matchesTypePosition t recentNodes =
     (case recentNodes of
        [StringLiteral _, n1, n2] \<Rightarrow> kind t n1 = 200 \<and> kind t n2 = 204
      | _ \<Rightarrow> False)"

definition updateFirstArgument ::
  "PathModule \<Rightarrow> RewriteImportTransformerOptions \<Rightarrow> TransformationContext \<Rightarrow> string \<Rightarrow>
   Node \<Rightarrow> Node list \<Rightarrow> Node list \<Rightarrow> Node"
where
  \<comment> \<open>What the branches for a dynamic import and for \<open>require\<close> both do with the call.\<close>
  "updateFirstArgument P options ctx sourcePath expression typeArguments arguments =
     (case arguments of
        [] \<Rightarrow> CallExpression expression typeArguments arguments
      | firstArg # restArg \<Rightarrow>
          CallExpression expression typeArguments
            (updateModuleSpecifier P options ctx sourcePath firstArg # restArg))"

text \<open>
  The visitor threads \<open>recentNodes\<close> through the traversal: it takes the list as it is
  when the node is visited and returns the rewritten node with the list as it is left.
  The \<open>console.log\<close> for files named \<open>testRecursiveDomain\<close> only prints and is left out.
\<close>

fun visitor ::
  "PathModule \<Rightarrow> RewriteImportTransformerOptions \<Rightarrow> TransformationContext \<Rightarrow> string \<Rightarrow>
   Node list \<Rightarrow> Node \<Rightarrow> Node \<times> Node list"
and visitNodes ::
  "PathModule \<Rightarrow> RewriteImportTransformerOptions \<Rightarrow> TransformationContext \<Rightarrow> string \<Rightarrow>
   Node list \<Rightarrow> Node list \<Rightarrow> Node list \<times> Node list"
where
  "visitor P options ctx sourcePath recentNodes (ImportDeclaration modifiers importClause spec assertClause) =
     (ImportDeclaration modifiers importClause
        (updateModuleSpecifier P options ctx sourcePath spec) assertClause,
      recordRecent (ImportDeclaration modifiers importClause spec assertClause) recentNodes)"
| "visitor P options ctx sourcePath recentNodes (ExportDeclaration modifiers isTypeOnly exportClause spec assertClause) =
     (case spec of
        None \<Rightarrow> ExportDeclaration modifiers isTypeOnly exportClause spec assertClause
      | Some m \<Rightarrow>
          ExportDeclaration modifiers isTypeOnly exportClause
            (Some (updateModuleSpecifier P options ctx sourcePath m)) assertClause,
      recordRecent (ExportDeclaration modifiers isTypeOnly exportClause spec assertClause) recentNodes)"
| "visitor P options ctx sourcePath recentNodes (StringLiteral text) =
     (if matchesTypePosition (opt_ts options) (recordRecent (StringLiteral text) recentNodes)
      then typePositionLiteral P options ctx sourcePath text
      else StringLiteral text,
      recordRecent (StringLiteral text) recentNodes)"
| "visitor P options ctx sourcePath recentNodes (CallExpression expression typeArguments arguments) =
     (if kind (opt_ts options) expression = SyntaxKind_ImportKeyword (opt_ts options) then
        (updateFirstArgument P options ctx sourcePath expression typeArguments arguments,
         recordRecent (CallExpression expression typeArguments arguments) recentNodes)
      else if (case expression of Identifier escapedText \<Rightarrow> escapedText = ''require'' | _ \<Rightarrow> False) then
        (updateFirstArgument P options ctx sourcePath expression typeArguments arguments,
         recordRecent (CallExpression expression typeArguments arguments) recentNodes)
      else
        (case visitor P options ctx sourcePath
                (recordRecent (CallExpression expression typeArguments arguments) recentNodes)
                expression of
           (expression', r1) \<Rightarrow>
             (case visitNodes P options ctx sourcePath r1 typeArguments of
                (typeArguments', r2) \<Rightarrow>
                  (case visitNodes P options ctx sourcePath r2 arguments of
                     (arguments', r3) \<Rightarrow>
                       (CallExpression expression' typeArguments' arguments', r3)))))"
| "visitor P options ctx sourcePath recentNodes (OtherNode k children) =
     (case visitNodes P options ctx sourcePath (recordRecent (OtherNode k children) recentNodes)
             children of
        (children', r) \<Rightarrow> (OtherNode k children', r))"
| "visitor P options ctx sourcePath recentNodes node = (node, recordRecent node recentNodes)"
| "visitNodes P options ctx sourcePath recentNodes [] = ([], recentNodes)"
| "visitNodes P options ctx sourcePath recentNodes (n # ns) =
     (case visitor P options ctx sourcePath recentNodes n of
        (n', r1) \<Rightarrow>
          (case visitNodes P options ctx sourcePath r1 ns of
             (ns', r2) \<Rightarrow> (n' # ns', r2)))"

datatype Root = SourceFile string Node | Bundle
  \<comment> \<open>A source file with its \<open>fileName\<close> and its node, or a bundle.\<close>

definition transformRoot ::
  "PathModule \<Rightarrow> RewriteImportTransformerOptions \<Rightarrow> TransformationContext \<Rightarrow> Root \<Rightarrow> js_error + Node"
where
  \<comment> \<open>The function the factory returns for one context: \<open>recentNodes\<close> starts empty.\<close>
  "transformRoot P options ctx file =
     (case file of
        Bundle \<Rightarrow> Inl BundleError
      | SourceFile fileName node \<Rightarrow> Inr (fst (visitor P options ctx fileName [] node)))"

section \<open>Running a worker (\<open>worker.ts\<close>, \<open>run\<close>)\<close>

datatype DiagnosticCategory = Warning | Error | Suggestion | Message















definition transformerOptions :: "WorkerOptions \<Rightarrow> TS \<Rightarrow> RewriteImportTransformerOptions" where
  \<comment> \<open>The options \<open>patchSolutionBuilderHost\<close> passes to
      \<open>createRewriteDtsImportTransformer\<close>.\<close>
  "transformerOptions d t =
     \<lparr>opt_extname = orElse (data_extname d) JS_EXT,
      opt_dtsExtName = orElse (data_dtsExtName d) DTS_EXT,
      opt_ts = t\<rparr>"

section \<open>An in-memory host\<close>

text \<open>
  A small host on which the definitions above can be run: a disk kept as an association
  list from paths to contents, a toy JSON codec, a worker configuration for \<open>.mjs\<close>
  output, and two compilers whose transpiler reports one error for every file; the
  second also emits a source map.
\<close>

definition memorySystem :: "(string \<times> string) list System" where
  "memorySystem =
     \<lparr>sys_fileExists = (\<lambda>st p. map_of st p \<noteq> None),
      sys_readFile = (\<lambda>st p. map_of st p),
      sys_writeFile = (\<lambda>st p data. Inr (AList.update p data st)),
      sys_deleteFile = Some (\<lambda>st p. Inr (AList.delete p st)),
      sys_directoryExists = (\<lambda>st p. False)\<rparr>"

fun showMember :: "string \<times> json \<Rightarrow> string" where
  "showMember (k, JString v) = k @ ''='' @ v @ '';''"
| "showMember (k, _) = k @ '';''"

definition exampleJSON :: JSON_api where
  "exampleJSON =
     \<lparr>JSON_parse = (\<lambda>text.
        if text = [] then None
        else Some (JObject [(''version'', JNumber 3), (''file'', JString text),
                            (''mappings'', JString ''AAAA'')])),
      JSON_stringify = (\<lambda>j. case j of JObject members \<Rightarrow> concat (map showMember members) | _ \<Rightarrow> [])\<rparr>"

definition mjsWorker :: WorkerOptions where
  "mjsWorker =
     \<lparr>data_extname = Some ''.mjs'', data_dtsExtName = Some ''.d.mts'',
      data_transpileOnly = True, data_clean = False, data_projects = [''proj'']\<rparr>"




text \<open>
  For the transformer: a \<open>path\<close> module in which every source file lives in \<open>/src\<close>, a
  compiler whose only directory is \<open>/src/./foo\<close>, and the options the worker passes for
  \<open>.mjs\<close>, \<open>.cjs\<close> and default output.
\<close>

definition examplePath :: PathModule where
  "examplePath = \<lparr>path_resolve = (\<lambda>dir p. dir @ ''/'' @ p), path_dirname = (\<lambda>p. ''/src'')\<rparr>"

definition exampleTS :: TS where
  "exampleTS =
     \<lparr>ts_directoryExists = (\<lambda>p. p = ''/src/./foo''),
      SyntaxKind_StringLiteral = 11,
      SyntaxKind_Identifier = 80,
      SyntaxKind_ImportKeyword = 102,
      SyntaxKind_ImportDeclaration = 272,
      SyntaxKind_ExportDeclaration = 278,
      SyntaxKind_CallExpression = 213\<rparr>"

definition mjsOptions :: RewriteImportTransformerOptions where
  "mjsOptions = transformerOptions mjsWorker exampleTS"

definition jsonContext :: TransformationContext where
  "jsonContext = \<lparr>resolveJsonModule = True\<rparr>"

definition cjsOptions :: RewriteImportTransformerOptions where
  "cjsOptions = \<lparr>opt_extname = ''.cjs'', opt_dtsExtName = ''.d.cts'', opt_ts = exampleTS\<rparr>"

definition jsOptions :: RewriteImportTransformerOptions where
  "jsOptions =
     transformerOptions
       \<lparr>data_extname = None, data_dtsExtName = None, data_transpileOnly = False,
        data_clean = False, data_projects = []\<rparr>
       exampleTS"

section \<open>Properties of the path policy\<close>

lemmas ext_defs = JS_EXT_def MAP_EXT_def JS_MAP_EXT_def DTS_EXT_def DTS_MAP_EXT_def JSON_EXT_def

lemma endsWith_suffix: "endsWith s suf = suffix suf s"
proof
  assume "endsWith s suf"
  then have "s = take (length s - length suf) s @ suf"
    by (metis append_take_drop_id endsWith_def)
  then show "suffix suf s" by (metis suffixI)
next
  assume "suffix suf s"
  then obtain b where "s = b @ suf" by (auto simp: suffix_def)
  then show "endsWith s suf" by (simp add: endsWith_def)
qed

lemma endsWith_append_self: "endsWith (b @ suf) suf"
  by (simp add: endsWith_def)

lemma trimSuffix_append: "trimSuffix (b @ suf) suf = b"
  by (simp add: trimSuffix_def endsWith_def)

lemma endsWith_split: "endsWith s suf \<Longrightarrow> \<exists>b. s = b @ suf"
  by (auto simp: endsWith_suffix suffix_def)

lemma endsWith_same: "endsWith p a \<Longrightarrow> endsWith p b \<Longrightarrow> endsWith a b \<or> endsWith b a"
  unfolding endsWith_suffix by (metis suffix_same_cases)

lemma endsWith_disjoint:
  "\<not> endsWith a b \<Longrightarrow> \<not> endsWith b a \<Longrightarrow> endsWith p a \<Longrightarrow> \<not> endsWith p b"
  using endsWith_same by blast

lemma endsWith_append_cases: "endsWith (b @ e) S \<Longrightarrow> endsWith e S \<or> endsWith S e"
  unfolding endsWith_suffix by (auto simp: suffix_append)

lemma dts_not_js: "endsWith p DTS_EXT \<Longrightarrow> \<not> endsWith p JS_EXT"
  by (erule endsWith_disjoint[rotated 2]) (simp_all add: ext_defs endsWith_def)

lemma dts_not_js_map: "endsWith p DTS_EXT \<Longrightarrow> \<not> endsWith p JS_MAP_EXT"
  by (erule endsWith_disjoint[rotated 2]) (simp_all add: ext_defs endsWith_def)

lemma dts_map_not_js: "endsWith p DTS_MAP_EXT \<Longrightarrow> \<not> endsWith p JS_EXT"
  by (erule endsWith_disjoint[rotated 2]) (simp_all add: ext_defs endsWith_def)

lemma dts_map_not_js_map: "endsWith p DTS_MAP_EXT \<Longrightarrow> \<not> endsWith p JS_MAP_EXT"
  by (erule endsWith_disjoint[rotated 2]) (simp_all add: ext_defs endsWith_def)

lemma js_map_not_js: "endsWith p JS_MAP_EXT \<Longrightarrow> \<not> endsWith p JS_EXT"
  by (erule endsWith_disjoint[rotated 2]) (simp_all add: ext_defs endsWith_def)

lemma js_map_not_dts: "endsWith p JS_MAP_EXT \<Longrightarrow> \<not> endsWith p DTS_EXT"
  by (erule endsWith_disjoint[rotated 2]) (simp_all add: ext_defs endsWith_def)

lemma dts_map_not_dts: "endsWith p DTS_MAP_EXT \<Longrightarrow> \<not> endsWith p DTS_EXT"
  by (erule endsWith_disjoint[rotated 2]) (simp_all add: ext_defs endsWith_def)

lemma rewritePath_no_role:
  "\<not> endsWith q JS_EXT \<Longrightarrow> \<not> endsWith q JS_MAP_EXT \<Longrightarrow> \<not> endsWith q DTS_EXT
   \<Longrightarrow> \<not> endsWith q DTS_MAP_EXT \<Longrightarrow> rewritePath d q ign = q"
  by (simp add: rewritePath_def)

lemma rewritePath_js: "endsWith p JS_EXT \<Longrightarrow> rewritePath d p ign = getJSPath d p"
  by (simp add: rewritePath_def)

lemma getJSPath_js_ext:
  "endsWith p JS_EXT \<Longrightarrow> data_extname d = Some JS_EXT \<Longrightarrow> getJSPath d p = p"
  by (auto simp: getJSPath_def trimSuffix_append JS_EXT_def dest!: endsWith_split)

text \<open>
  C7. A path that ends in \<open>.d.ts\<close> or \<open>.d.ts.map\<close> is returned as it is by
  \<open>rewritePath\<close> with \<open>ignoreDts = true\<close>, whatever the target configuration (also when
  a declaration extension is configured).
\<close>

theorem rewritePath_ignoreDts_declaration:
  assumes "endsWith p DTS_EXT \<or> endsWith p DTS_MAP_EXT"
  shows "rewritePath d p True = p"
  using assms
  by (auto simp: rewritePath_def
           dest: dts_not_js dts_not_js_map dts_map_not_js dts_map_not_js_map)

theorem rewritePath_ignoreDts_declaration_witness:
  "endsWith ''lib.dom.d.ts'' DTS_EXT \<and>
   rewritePath \<lparr>data_extname = Some ''.mjs'', data_dtsExtName = Some ''.d.mts'',
                data_transpileOnly = False, data_clean = False, data_projects = []\<rparr>
     ''lib.dom.d.ts'' True = ''lib.dom.d.ts''"
proof -
  have h: "endsWith ''lib.dom.d.ts'' DTS_EXT"
    by (simp add: endsWith_def DTS_EXT_def)
  from rewritePath_ignoreDts_declaration [OF disjI1, OF h] h show ?thesis
    by blast
qed

text \<open>
  C6, as amended. For a path \<open>p\<close> that ends in \<open>.js\<close>: when no script extension is set
  (it is \<open>undefined\<close> or empty) \<open>rewritePath\<close> returns \<open>p\<close>; when one is set the result is
  \<open>p\<close> with \<open>.js\<close> replaced by it, and so ends in it. A second application returns the
  result of the first when no extension is set, when the extension is \<open>.js\<close>, or when
  the extension neither ends in, nor is an ending of, any of \<open>.js\<close>, \<open>.js.map\<close>,
  \<open>.d.ts\<close> and \<open>.d.ts.map\<close> (as \<open>.mjs\<close> and \<open>.cjs\<close> do not). The claim as written
  promises this for every extension, which fails for \<open>.min.js\<close>.
\<close>

theorem rewritePath_script:
  assumes "endsWith p JS_EXT"
  shows "(case data_extname d of
            None \<Rightarrow> rewritePath d p ign = p
          | Some e \<Rightarrow>
              if e = [] then rewritePath d p ign = p
              else rewritePath d p ign = trimSuffix p JS_EXT @ e
                   \<and> endsWith (rewritePath d p ign) e)
       \<and> ((case data_extname d of
              None \<Rightarrow> True
            | Some e \<Rightarrow> e = [] \<or> e = JS_EXT \<or>
                (\<forall>S \<in> {JS_EXT, JS_MAP_EXT, DTS_EXT, DTS_MAP_EXT}.
                   \<not> endsWith e S \<and> \<not> endsWith S e))
           \<longrightarrow> rewritePath d (rewritePath d p ign) ign = rewritePath d p ign)"
proof (cases "data_extname d")
  case None
  then show ?thesis using assms by (simp add: rewritePath_js getJSPath_def)
next
  case (Some e)
  show ?thesis
  proof (cases "e = []")
    case True
    then show ?thesis using assms Some by (simp add: rewritePath_js getJSPath_def)
  next
    case False
    have q: "rewritePath d p ign = trimSuffix p JS_EXT @ e"
      using assms Some False by (simp add: rewritePath_js getJSPath_def)
    have ends: "endsWith (rewritePath d p ign) e"
      by (simp add: q endsWith_append_self)
    have idem: "rewritePath d (rewritePath d p ign) ign = rewritePath d p ign"
      if "e = JS_EXT \<or> (\<forall>S \<in> {JS_EXT, JS_MAP_EXT, DTS_EXT, DTS_MAP_EXT}.
                            \<not> endsWith e S \<and> \<not> endsWith S e)"
      using that
    proof
      assume "e = JS_EXT"
      then have "rewritePath d p ign = p"
        using assms Some by (simp add: rewritePath_js getJSPath_js_ext)
      then show ?thesis by simp
    next
      assume inc: "\<forall>S \<in> {JS_EXT, JS_MAP_EXT, DTS_EXT, DTS_MAP_EXT}.
                     \<not> endsWith e S \<and> \<not> endsWith S e"
      have "\<not> endsWith (trimSuffix p JS_EXT @ e) S" if "\<not> endsWith e S \<and> \<not> endsWith S e" for S
        using that endsWith_append_cases[of "trimSuffix p JS_EXT" e S] by blast
      with inc show ?thesis
        unfolding q by (intro rewritePath_no_role) simp_all
    qed
    show ?thesis using Some False q ends idem by simp
  qed
qed

theorem rewritePath_script_witness:
  "endsWith ''src/a.js'' JS_EXT \<and>
   rewritePath \<lparr>data_extname = Some ''.mjs'', data_dtsExtName = None,
                data_transpileOnly = False, data_clean = False, data_projects = []\<rparr>
     ''src/a.js'' False = ''src/a.mjs'' \<and>
   rewritePath \<lparr>data_extname = Some ''.mjs'', data_dtsExtName = None,
                data_transpileOnly = False, data_clean = False, data_projects = []\<rparr>
     ''src/a.mjs'' False = ''src/a.mjs''"
proof -
  let ?d = "\<lparr>data_extname = Some ''.mjs'', data_dtsExtName = None,
             data_transpileOnly = False, data_clean = False, data_projects = []\<rparr>"
  have h: "endsWith ''src/a.js'' JS_EXT"
    by (simp add: endsWith_def JS_EXT_def)
  have t: "trimSuffix ''src/a.js'' JS_EXT @ ''.mjs'' = ''src/a.mjs''"
    by (simp add: trimSuffix_def endsWith_def JS_EXT_def)
  have inc: "\<forall>S \<in> {JS_EXT, JS_MAP_EXT, DTS_EXT, DTS_MAP_EXT}.
               \<not> endsWith ''.mjs'' S \<and> \<not> endsWith S ''.mjs''"
    by (simp add: endsWith_def ext_defs)
  have e: "data_extname ?d = Some ''.mjs''" by simp
  note r = rewritePath_script [OF h, of ?d False, unfolded e option.case]
  from r have a: "rewritePath ?d ''src/a.js'' False = trimSuffix ''src/a.js'' JS_EXT @ ''.mjs''"
    by simp
  from r inc have b: "rewritePath ?d (rewritePath ?d ''src/a.js'' False) False
            = rewritePath ?d ''src/a.js'' False"
    by blast
  from a t have a': "rewritePath ?d ''src/a.js'' False = ''src/a.mjs''"
    by simp
  from b have "rewritePath ?d ''src/a.mjs'' False = ''src/a.mjs''"
    unfolding a' .
  with a' h show ?thesis
    by blast
qed

theorem rewritePath_script_not_idempotent:
  "endsWith ''a.js'' JS_EXT \<and>
   rewritePath \<lparr>data_extname = Some ''.min.js'', data_dtsExtName = None,
                data_transpileOnly = False, data_clean = False, data_projects = []\<rparr>
     ''a.js'' False = ''a.min.js'' \<and>
   rewritePath \<lparr>data_extname = Some ''.min.js'', data_dtsExtName = None,
                data_transpileOnly = False, data_clean = False, data_projects = []\<rparr>
     ''a.min.js'' False = ''a.min.min.js'' \<and>
   rewritePath \<lparr>data_extname = Some ''.min.js'', data_dtsExtName = None,
                data_transpileOnly = False, data_clean = False, data_projects = []\<rparr>
     (rewritePath \<lparr>data_extname = Some ''.min.js'', data_dtsExtName = None,
                   data_transpileOnly = False, data_clean = False, data_projects = []\<rparr>
        ''a.js'' False) False
   \<noteq> rewritePath \<lparr>data_extname = Some ''.min.js'', data_dtsExtName = None,
                  data_transpileOnly = False, data_clean = False, data_projects = []\<rparr>
       ''a.js'' False"
  by (simp add: rewritePath_def getJSPath_def trimSuffix_def endsWith_def ext_defs)

section \<open>Properties of the file system adapter\<close>

lemma foldl_or:
  "foldl (\<lambda>result path. result \<or> f path) b xs = (b \<or> (\<exists>c \<in> set xs. f c))"
  by (induction xs arbitrary: b) auto

lemma foldl_first:
  "foldl (\<lambda>result path. case result of Some r \<Rightarrow> Some r | None \<Rightarrow> g path) acc xs =
     (case acc of
        Some r \<Rightarrow> Some r
      | None \<Rightarrow> (case find (\<lambda>c. g c \<noteq> None) xs of None \<Rightarrow> None | Some c \<Rightarrow> g c))"
  by (induction xs arbitrary: acc) (auto split: option.splits)

text \<open>
  C5. For every path \<open>p\<close> the candidates of a read are \<open>rewritePath p\<close> with
  \<open>ignoreDts = true\<close>, followed by \<open>p\<close> itself exactly when \<open>p\<close> ends in \<open>.js\<close>. The
  adapter's \<open>fileExists\<close> holds if and only if the underlying system has one of the
  candidates, and its \<open>readFile\<close> returns what the underlying system reads at the first
  candidate, in list order, that it can read, and no value when it can read none.
\<close>

theorem createSystem_reads:
  "getReadPaths d p = rewritePath d p True # (if endsWith p JS_EXT then [p] else [])
   \<and> sys_fileExists (createSystem J d sys) st p
       = (\<exists>c \<in> set (getReadPaths d p). sys_fileExists sys st c)
   \<and> sys_readFile (createSystem J d sys) st p
       = (case find (\<lambda>c. sys_readFile sys st c \<noteq> None) (getReadPaths d p) of
            None \<Rightarrow> None
          | Some c \<Rightarrow> sys_readFile sys st c)"
proof (intro conjI)
  show "getReadPaths d p = rewritePath d p True # (if endsWith p JS_EXT then [p] else [])"
    by (simp add: getReadPaths_def)
  show "sys_fileExists (createSystem J d sys) st p
       = (\<exists>c \<in> set (getReadPaths d p). sys_fileExists sys st c)"
    by (simp add: createSystem_def foldl_or)
  show "sys_readFile (createSystem J d sys) st p
       = (case find (\<lambda>c. sys_readFile sys st c \<noteq> None) (getReadPaths d p) of
            None \<Rightarrow> None
          | Some c \<Rightarrow> sys_readFile sys st c)"
    by (simp add: createSystem_def foldl_first)
qed

theorem createSystem_reads_witness:
  "getReadPaths mjsWorker ''a.js'' = [''a.mjs'', ''a.js'']
   \<and> sys_fileExists (createSystem exampleJSON mjsWorker memorySystem) [(''a.js'', ''let x'')] ''a.js''
   \<and> sys_readFile (createSystem exampleJSON mjsWorker memorySystem) [(''a.js'', ''let x'')] ''a.js''
       = Some ''let x''
   \<and> \<not> sys_fileExists (createSystem exampleJSON mjsWorker memorySystem) [(''a.js'', ''let x'')] ''a.mjs''
   \<and> sys_readFile (createSystem exampleJSON mjsWorker memorySystem) [(''a.js'', ''let x'')] ''b.js''
       = None"
  using createSystem_reads [of mjsWorker "''a.js''" exampleJSON memorySystem "[(''a.js'', ''let x'')]"]
    createSystem_reads [of mjsWorker "''a.mjs''" exampleJSON memorySystem "[(''a.js'', ''let x'')]"]
    createSystem_reads [of mjsWorker "''b.js''" exampleJSON memorySystem "[(''a.js'', ''let x'')]"]
  by (simp add: getReadPaths_def mjsWorker_def rewritePath_def getJSPath_def trimSuffix_def
        endsWith_def ext_defs memorySystem_def)

lemma newData_map:
  assumes "endsWith path JS_MAP_EXT \<or> endsWith path DTS_MAP_EXT"
  shows "newData J d path data = rewriteSourceMap J d data"
  using assms
  by (auto simp: newData_def dest: js_map_not_js js_map_not_dts dts_map_not_js dts_map_not_dts)

lemma map_fst_update_present:
  "map_of al k = Some v \<Longrightarrow> map fst (AList.update k v' al) = map fst al"
  by (induction al) (auto split: if_splits)

text \<open>
  C9. Writing a map file (a path that ends in \<open>.js.map\<close> or \<open>.d.ts.map\<close>) whose content
  parses to an object with a string member \<open>file\<close>: the adapter writes, at the rewritten
  path, the serialisation of an object with the same members in the same order, in which
  \<open>file\<close> holds its rewritten path and every other member holds what it held.
\<close>

theorem writeFile_map:
  assumes "endsWith path JS_MAP_EXT \<or> endsWith path DTS_MAP_EXT"
    and "JSON_parse J data = Some (JObject members)"
    and "map_of members ''file'' = Some (JString file)"
  shows "\<exists>members'.
           sys_writeFile (createSystem J d sys) st path data
             = sys_writeFile sys st (rewritePath d path False)
                 (JSON_stringify J (JObject members'))
         \<and> map fst members' = map fst members
         \<and> map_of members' ''file'' = Some (JString (rewritePath d file False))
         \<and> (\<forall>k. k \<noteq> ''file'' \<longrightarrow> map_of members' k = map_of members k)"
proof -
  let ?m = "AList.update ''file'' (JString (rewritePath d file False)) members"
  have "rewriteSourceMap J d data = Inr (JSON_stringify J (JObject ?m))"
    using assms(2,3) by (simp add: rewriteSourceMap_def)
  then have "sys_writeFile (createSystem J d sys) st path data
      = sys_writeFile sys st (rewritePath d path False) (JSON_stringify J (JObject ?m))"
    using newData_map [OF assms(1)] by (simp add: createSystem_def)
  moreover have "map fst ?m = map fst members"
    using assms(3) by (rule map_fst_update_present)
  moreover have "map_of ?m ''file'' = Some (JString (rewritePath d file False))"
    by (simp add: update_conv')
  moreover have "\<forall>k. k \<noteq> ''file'' \<longrightarrow> map_of ?m k = map_of members k"
    by (simp add: update_conv')
  ultimately show ?thesis by blast
qed

lemma rewritePath_example_map: "rewritePath mjsWorker ''out/a.js.map'' False = ''out/a.mjs.map''"
  by (simp add: mjsWorker_def rewritePath_def getJSMapPath_def trimSuffix_def endsWith_def ext_defs)

lemma rewritePath_example_js: "rewritePath mjsWorker ''a.js'' False = ''a.mjs''"
  by (simp add: mjsWorker_def rewritePath_def getJSPath_def trimSuffix_def endsWith_def ext_defs)

theorem writeFile_map_witness:
  "endsWith ''out/a.js.map'' JS_MAP_EXT
   \<and> JSON_parse exampleJSON ''a.js''
       = Some (JObject [(''version'', JNumber 3), (''file'', JString ''a.js''),
                        (''mappings'', JString ''AAAA'')])
   \<and> sys_writeFile (createSystem exampleJSON mjsWorker memorySystem) [] ''out/a.js.map'' ''a.js''
       = Inr [(''out/a.mjs.map'', ''version;file=a.mjs;mappings=AAAA;'')]"
proof -
  let ?members = "[(''version'', JNumber 3), (''file'', JString ''a.js''),
                   (''mappings'', JString ''AAAA'')]"
  have h1: "endsWith ''out/a.js.map'' JS_MAP_EXT"
    by (simp add: endsWith_def ext_defs)
  have h2: "JSON_parse exampleJSON ''a.js'' = Some (JObject ?members)"
    by (simp add: exampleJSON_def)
  have h3: "map_of ?members ''file'' = Some (JString ''a.js'')"
    by simp
  from writeFile_map [OF disjI1, OF h1 h2 h3, of mjsWorker memorySystem "[]"]
  obtain members' where
    w: "sys_writeFile (createSystem exampleJSON mjsWorker memorySystem) [] ''out/a.js.map'' ''a.js''
          = sys_writeFile memorySystem [] (rewritePath mjsWorker ''out/a.js.map'' False)
              (JSON_stringify exampleJSON (JObject members'))"
    by blast
  have "sys_writeFile (createSystem exampleJSON mjsWorker memorySystem) [] ''out/a.js.map'' ''a.js''
       = Inr [(''out/a.mjs.map'', ''version;file=a.mjs;mappings=AAAA;'')]"
    by (simp add: createSystem_def newData_def rewriteSourceMap_def exampleJSON_def
          memorySystem_def rewritePath_example_map rewritePath_example_js endsWith_def ext_defs)
  with h1 h2 w show ?thesis by blast
qed

section \<open>Properties of a transpile-only run\<close>


















section \<open>Properties of the specifier rewriter\<close>

lemma lastSegment_append_ext:
  assumes "x \<noteq> []" "CHR ''/'' \<notin> set x"
  shows "lastSegment (b @ CHR ''.'' # x)
         = rev (takeWhile (\<lambda>c. c \<noteq> CHR ''/'') (rev b)) @ CHR ''.'' # x"
proof -
  have hd: "hd (rev x) \<noteq> CHR ''/''"
    using assms by (metis hd_in_set rev_is_Nil_conv set_rev)
  have "rev x \<noteq> []" using assms by simp
  then have d: "dropWhile (\<lambda>c. c = CHR ''/'') (rev x @ CHR ''.'' # rev b) = rev x @ CHR ''.'' # rev b"
    using hd by (cases "rev x") auto
  have t: "takeWhile (\<lambda>c. c \<noteq> CHR ''/'') (rev x @ CHR ''.'' # rev b)
           = rev x @ CHR ''.'' # takeWhile (\<lambda>c. c \<noteq> CHR ''/'') (rev b)"
    using assms(2) by (auto simp: takeWhile_append)
  show ?thesis
    by (simp add: lastSegment_def d t)
qed

lemma extname_append_ext:
  assumes "x \<noteq> []" "CHR ''/'' \<notin> set x" "CHR ''.'' \<notin> set x"
  shows "extname (b @ CHR ''.'' # x) = (if b = [] \<or> last b = CHR ''/'' then [] else CHR ''.'' # x)"
proof -
  define c where "c = rev (takeWhile (\<lambda>c. c \<noteq> CHR ''/'') (rev b))"
  have base: "lastSegment (b @ CHR ''.'' # x) = c @ CHR ''.'' # x"
    unfolding c_def using assms(1,2) by (rule lastSegment_append_ext)
  have ext: "rev (takeWhile (\<lambda>c. c \<noteq> CHR ''.'') (rev (c @ CHR ''.'' # x))) = x"
    using assms(3) by (auto simp: takeWhile_append)
  have notdd: "c @ CHR ''.'' # x \<noteq> ''..''"
  proof
    assume "c @ CHR ''.'' # x = ''..''"
    then have "x = [] \<or> x = ''.''"
      by (cases c) (auto simp: Cons_eq_append_conv append_eq_Cons_conv)
    then show False using assms by auto
  qed
  have cnil: "c = [] \<longleftrightarrow> b = [] \<or> last b = CHR ''/''"
    unfolding c_def by (cases b rule: rev_cases) (auto simp: takeWhile_eq_Nil_iff)
  show ?thesis
    unfolding extname_def base Let_def ext using notdd cnil by auto
qed

lemma extname_js: "extname (b @ ''.js'') = (if b = [] \<or> last b = CHR ''/'' then [] else ''.js'')"
  using extname_append_ext [of "''js''" b] by simp

lemma extname_cjs: "extname (b @ ''.cjs'') = (if b = [] \<or> last b = CHR ''/'' then [] else ''.cjs'')"
  using extname_append_ext [of "''cjs''" b] by simp

lemma endsWith_slash_js: "b \<noteq> [] \<Longrightarrow> endsWith (b @ ''.js'') ''/.js'' \<longleftrightarrow> last b = CHR ''/''"
  by (cases b rule: rev_cases) (auto simp: endsWith_suffix suffix_def)

lemma not_relative_js: "\<not> isRelativePath ''.js''"
  by (simp add: isRelativePath_def startsWith_def)

lemma strip_js_conv:
  assumes "isRelativePath s"
  shows "(if extname s = JS_EXT then trimSuffix s JS_EXT else s)
         = (if endsWith s ''.js'' \<and> \<not> endsWith s ''/.js'' then take (length s - 3) s else s)"
proof (cases "endsWith s ''.js''")
  case False
  then show ?thesis by (simp add: trimSuffix_def JS_EXT_def)
next
  case True
  then obtain b where s: "s = b @ ''.js''" by (auto dest: endsWith_split)
  with assms have b: "b \<noteq> []" using not_relative_js by auto
  show ?thesis
    using b True by (simp add: s extname_js endsWith_slash_js JS_EXT_def trimSuffix_append endsWith_append_self)
qed

text \<open>
  C1, as amended. \<open>updateModuleSpecifier\<close> applies its rules in this order: a node that is
  not a string literal, or whose text is not a relative path, is returned unchanged;
  else a text with extension \<open>.cjs\<close> is returned unchanged; else a text that resolves,
  from the directory of the containing file, to an existing directory becomes the text
  followed by \<open>/index\<close> and the configured script extension; else a text with extension
  \<open>.json\<close> is returned unchanged when \<open>resolveJsonModule\<close> is on; otherwise a trailing
  \<open>.js\<close> is stripped, unless the text ends in \<open>/.js\<close> (a file named \<open>.js\<close> has no
  extension), and the configured script extension is appended. The claim as written
  strips every trailing \<open>.js\<close>; the code strips it only when it is the extension that
  \<open>extname\<close> finds.
\<close>

theorem updateModuleSpecifier_rules:
  "updateModuleSpecifier P options ctx sourcePath node =
     (case node of
        StringLiteral s \<Rightarrow>
          if \<not> isRelativePath s then node
          else if extname s = ''.cjs'' then node
          else if isDirectory P options sourcePath s then
            StringLiteral (s @ ''/index'' @ opt_extname options)
          else if extname s = ''.json'' \<and> resolveJsonModule ctx then node
          else StringLiteral
                 ((if endsWith s ''.js'' \<and> \<not> endsWith s ''/.js''
                   then take (length s - 3) s else s) @ opt_extname options)
      | _ \<Rightarrow> node)"
  by (cases node) (simp_all add: strip_js_conv JSON_EXT_def)

theorem updateModuleSpecifier_rules_witness:
  "updateModuleSpecifier examplePath mjsOptions jsonContext ''/src/a.ts'' (StringLiteral ''./foo.js'')
     = StringLiteral ''./foo.mjs''
   \<and> updateModuleSpecifier examplePath mjsOptions jsonContext ''/src/a.ts'' (StringLiteral ''./foo'')
     = StringLiteral ''./foo/index.mjs''"
  using updateModuleSpecifier_rules [of examplePath mjsOptions jsonContext "''/src/a.ts''" "StringLiteral ''./foo.js''"]
    updateModuleSpecifier_rules [of examplePath mjsOptions jsonContext "''/src/a.ts''" "StringLiteral ''./foo''"]
  by code_simp

theorem updateModuleSpecifier_dot_js:
  "isRelativePath ''./.js''
   \<and> endsWith ''./.js'' ''.js''
   \<and> extname ''./.js'' = []
   \<and> \<not> isDirectory examplePath mjsOptions ''/src/a.ts'' ''./.js''
   \<and> updateModuleSpecifier examplePath mjsOptions jsonContext ''/src/a.ts'' (StringLiteral ''./.js'')
       = StringLiteral ''./.js.mjs''
   \<and> trimSuffix ''./.js'' ''.js'' @ opt_extname mjsOptions = ''./.mjs''
   \<and> updateModuleSpecifier examplePath mjsOptions jsonContext ''/src/a.ts'' (StringLiteral ''./.js'')
       \<noteq> StringLiteral (trimSuffix ''./.js'' ''.js'' @ opt_extname mjsOptions)"
  by code_simp

lemma opt_of_update [simp]:
  "opt_extname (options\<lparr>opt_dtsExtName := x\<rparr>) = opt_extname options"
  "opt_ts (options\<lparr>opt_dtsExtName := x\<rparr>) = opt_ts options"
  by simp_all

lemma isDirectory_dtsExtName [simp]:
  "isDirectory P (options\<lparr>opt_dtsExtName := x\<rparr>) f s = isDirectory P options f s"
  by (simp add: isDirectory_def)

lemma updateModuleSpecifier_dtsExtName [simp]:
  "updateModuleSpecifier P (options\<lparr>opt_dtsExtName := x\<rparr>) ctx f node
   = updateModuleSpecifier P options ctx f node"
  by (cases node) simp_all

lemma typePositionLiteral_dtsExtName [simp]:
  "typePositionLiteral P (options\<lparr>opt_dtsExtName := x\<rparr>) ctx f s
   = typePositionLiteral P options ctx f s"
  by (simp add: typePositionLiteral_def)

lemma visitor_dtsExtName:
  "visitor P (options\<lparr>opt_dtsExtName := x\<rparr>) ctx f recent node = visitor P options ctx f recent node"
  "visitNodes P (options\<lparr>opt_dtsExtName := x\<rparr>) ctx f recent nodes = visitNodes P options ctx f recent nodes"
proof (induction P options ctx f recent node and P options ctx f recent nodes
       rule: visitor_visitNodes.induct)
  case (4 P options ctx sourcePath recentNodes expression typeArguments arguments)
  then show ?case
    by (auto simp: updateFirstArgument_def split: prod.splits list.splits)
qed (auto split: prod.splits option.splits)

lemma transformerOptions_dtsExtName:
  "transformerOptions (d\<lparr>data_dtsExtName := x\<rparr>) t
   = (transformerOptions d t)\<lparr>opt_dtsExtName := orElse x DTS_EXT\<rparr>"
  by (simp add: transformerOptions_def)

lemma updateModuleSpecifier_text:
  "updateModuleSpecifier P options ctx f node =
     (case node of
        StringLiteral s \<Rightarrow>
          StringLiteral
            (if \<not> isRelativePath s \<or> extname s = ''.cjs'' then s
             else if isDirectory P options f s then s @ ''/index'' @ opt_extname options
             else if extname s = ''.json'' \<and> resolveJsonModule ctx then s
             else (if extname s = ''.js'' then trimSuffix s ''.js'' else s) @ opt_extname options)
      | _ \<Rightarrow> node)"
  by (cases node) (simp_all add: ext_defs)

text \<open>
  C2, as amended. With the options the worker passes, the declaration rewriter uses the
  script extension: \<open>options.extname\<close> is \<open>data.extname\<close>, or \<open>.js\<close> when that is unset. The
  specifier of an import declaration, the specifier of an export declaration, the
  first argument of a dynamic import and the first argument of \<open>require\<close> are each
  replaced by the result of the rules of \<open>updateModuleSpecifier\<close>, and a string literal in
  type position by the result of the rules of that branch; whenever a rule appends an
  extension it is the script extension. \<open>dtsExtName\<close> is never read: the visitor returns
  the same whatever it is set to. The claim as written has the declaration extension
  appended.
\<close>

theorem rewriter_uses_script_extension:
  "let options = transformerOptions d t;
       E = orElse (data_extname d) JS_EXT;
       rewritten = (\<lambda>node. case node of
          StringLiteral s \<Rightarrow>
            StringLiteral
              (if \<not> isRelativePath s \<or> extname s = ''.cjs'' then s
               else if isDirectory P options f s then s @ ''/index'' @ E
               else if extname s = ''.json'' \<and> resolveJsonModule ctx then s
               else (if extname s = ''.js'' then trimSuffix s ''.js'' else s) @ E)
        | _ \<Rightarrow> node)
   in opt_extname options = E
    \<and> fst (visitor P options ctx f recent (ImportDeclaration modifiers importClause spec assertClause))
        = ImportDeclaration modifiers importClause (rewritten spec) assertClause
    \<and> fst (visitor P options ctx f recent
              (ExportDeclaration modifiers isTypeOnly exportClause (Some spec) assertClause))
        = ExportDeclaration modifiers isTypeOnly exportClause (Some (rewritten spec)) assertClause
    \<and> fst (visitor P options ctx f recent (CallExpression ImportKeyword typeArguments (arg # rest)))
        = CallExpression ImportKeyword typeArguments (rewritten arg # rest)
    \<and> fst (visitor P options ctx f recent
              (CallExpression (Identifier ''require'') typeArguments (arg # rest)))
        = CallExpression (Identifier ''require'') typeArguments (rewritten arg # rest)
    \<and> fst (visitor P options ctx f [OtherNode 200 c1, OtherNode 204 c2] (StringLiteral s))
        = StringLiteral
            (if s \<noteq> ''..'' \<and> \<not> isRelativePath s then s
             else if extname s = ''.json'' \<and> resolveJsonModule ctx then s
             else if isDirectory P options f s then s @ ''/index'' @ E
             else (if extname s = ''.js'' then trimSuffix s ''.js'' else s) @ E)
    \<and> visitor P (transformerOptions (d\<lparr>data_dtsExtName := x\<rparr>) t) ctx f recent node
        = visitor P options ctx f recent node"
proof -
  let ?options = "transformerOptions d t"
  have e: "opt_extname ?options = orElse (data_extname d) JS_EXT"
    by (simp add: transformerOptions_def)
  have u: "updateModuleSpecifier P ?options ctx f n =
     (case n of
        StringLiteral s \<Rightarrow>
          StringLiteral
            (if \<not> isRelativePath s \<or> extname s = ''.cjs'' then s
             else if isDirectory P ?options f s then s @ ''/index'' @ orElse (data_extname d) JS_EXT
             else if extname s = ''.json'' \<and> resolveJsonModule ctx then s
             else (if extname s = ''.js'' then trimSuffix s ''.js'' else s)
                  @ orElse (data_extname d) JS_EXT)
      | _ \<Rightarrow> n)" for n
    unfolding updateModuleSpecifier_text e ..
  have imp: "fst (visitor P ?options ctx f recent (ImportDeclaration modifiers importClause spec assertClause))
        = ImportDeclaration modifiers importClause (updateModuleSpecifier P ?options ctx f spec) assertClause"
    by simp
  have exp: "fst (visitor P ?options ctx f recent
              (ExportDeclaration modifiers isTypeOnly exportClause (Some spec) assertClause))
        = ExportDeclaration modifiers isTypeOnly exportClause
            (Some (updateModuleSpecifier P ?options ctx f spec)) assertClause"
    by simp
  have dyn: "fst (visitor P ?options ctx f recent (CallExpression ImportKeyword typeArguments (arg # rest)))
        = CallExpression ImportKeyword typeArguments (updateModuleSpecifier P ?options ctx f arg # rest)"
    by (simp add: updateFirstArgument_def)
  have req: "fst (visitor P ?options ctx f recent
              (CallExpression (Identifier ''require'') typeArguments (arg # rest)))
        = CallExpression (Identifier ''require'') typeArguments
            (updateModuleSpecifier P ?options ctx f arg # rest)"
    by (simp add: updateFirstArgument_def)
  have tpos: "fst (visitor P ?options ctx f [OtherNode 200 c1, OtherNode 204 c2] (StringLiteral s))
        = StringLiteral
            (if s \<noteq> ''..'' \<and> \<not> isRelativePath s then s
             else if extname s = ''.json'' \<and> resolveJsonModule ctx then s
             else if isDirectory P ?options f s then s @ ''/index'' @ orElse (data_extname d) JS_EXT
             else (if extname s = ''.js'' then trimSuffix s ''.js'' else s)
                  @ orElse (data_extname d) JS_EXT)"
    by (simp add: recordRecent_def matchesTypePosition_def typePositionLiteral_def e ext_defs)
  have inv: "visitor P (transformerOptions (d\<lparr>data_dtsExtName := x\<rparr>) t) ctx f recent node
        = visitor P ?options ctx f recent node"
    by (simp add: transformerOptions_dtsExtName visitor_dtsExtName)
  show ?thesis
    unfolding Let_def imp exp dyn req u
    using e tpos inv by simp
qed

theorem rewriter_uses_script_extension_witness:
  "opt_extname (transformerOptions mjsWorker exampleTS) = ''.mjs''
   \<and> opt_dtsExtName (transformerOptions mjsWorker exampleTS) = ''.d.mts''
   \<and> fst (visitor examplePath (transformerOptions mjsWorker exampleTS) jsonContext ''/src/a.d.ts'' []
            (ImportDeclaration [] None (StringLiteral ''./bar.js'') None))
       = ImportDeclaration [] None (StringLiteral ''./bar.mjs'') None
   \<and> fst (visitor examplePath (transformerOptions mjsWorker exampleTS) jsonContext ''/src/a.d.ts'' []
            (ExportDeclaration [] False None (Some (StringLiteral ''./bar.js'')) None))
       = ExportDeclaration [] False None (Some (StringLiteral ''./bar.mjs'')) None
   \<and> fst (visitor examplePath (transformerOptions mjsWorker exampleTS) jsonContext ''/src/a.d.ts'' []
            (CallExpression ImportKeyword [] [StringLiteral ''./bar.js'']))
       = CallExpression ImportKeyword [] [StringLiteral ''./bar.mjs'']
   \<and> fst (visitor examplePath (transformerOptions mjsWorker exampleTS) jsonContext ''/src/a.d.ts'' []
            (CallExpression (Identifier ''require'') [] [StringLiteral ''./bar.js'']))
       = CallExpression (Identifier ''require'') [] [StringLiteral ''./bar.mjs'']"
proof -
  have r: "isRelativePath ''./bar.js''" by code_simp
  have x: "extname ''./bar.js'' = ''.js''" by code_simp
  have nd: "\<not> isDirectory examplePath (transformerOptions mjsWorker exampleTS) ''/src/a.d.ts'' ''./bar.js''"
    by code_simp
  have e: "orElse (data_extname mjsWorker) JS_EXT = ''.mjs''" by code_simp
  have t: "trimSuffix ''./bar.js'' ''.js'' = ''./bar''" by code_simp
  have dt: "opt_dtsExtName (transformerOptions mjsWorker exampleTS) = ''.d.mts''" by code_simp
  note inst = rewriter_uses_script_extension [where d = mjsWorker and t = exampleTS
      and P = examplePath and ctx = jsonContext and f = "''/src/a.d.ts''" and recent = "[]"
      and modifiers = "[]" and importClause = None and assertClause = None
      and isTypeOnly = False and exportClause = None and typeArguments = "[]"
      and spec = "StringLiteral ''./bar.js''" and arg = "StringLiteral ''./bar.js''"
      and rest = "[]", unfolded Let_def]
  from inst r x nd e t dt show ?thesis
    by simp
qed

theorem declaration_rewriter_appends_script_extension:
  "opt_extname mjsOptions = ''.mjs''
   \<and> opt_dtsExtName mjsOptions = ''.d.mts''
   \<and> fst (visitor examplePath mjsOptions jsonContext ''/src/a.d.ts'' []
            (ImportDeclaration [] None (StringLiteral ''./bar'') None))
       = ImportDeclaration [] None (StringLiteral ''./bar.mjs'') None
   \<and> \<not> endsWith ''./bar.mjs'' (opt_dtsExtName mjsOptions)"
  by code_simp

lemma recordRecent_length: "length recent \<le> 3 \<Longrightarrow> length (recordRecent n recent) \<le> 3"
  by (auto simp: recordRecent_def)

lemma visitor_recent_length:
  "length recent \<le> 3 \<Longrightarrow> length (snd (visitor P options ctx f recent node)) \<le> 3"
  "length recent \<le> 3 \<Longrightarrow> length (snd (visitNodes P options ctx f recent nodes)) \<le> 3"
  by (induction P options ctx f recent node and P options ctx f recent nodes
      rule: visitor_visitNodes.induct)
     (auto simp: recordRecent_length split: prod.splits)

lemma recordRecent_three:
  "length rest \<le> 1 \<Longrightarrow> recordRecent n (n1 # n2 # rest) = [n, n1, n2]"
  by (cases rest) (auto simp: recordRecent_def)

lemma extname_dotdot: "extname ''..'' = []"
  by code_simp

lemma not_relative_dotdot: "\<not> isRelativePath ''..''"
  by (simp add: isRelativePath_def startsWith_def)

text \<open>
  C3. A string literal visited right after a node of kind 200 (mapped type), itself
  visited right after a node of kind 204 (template literal type span), is treated as a
  module specifier: unless it is neither \<open>..\<close> nor a relative path, it is left alone when
  its extension is \<open>.json\<close> and \<open>resolveJsonModule\<close> is on, gets \<open>/index\<close> and the
  extension appended when it names a directory, and otherwise has the extension
  appended after a \<open>.js\<close> extension is stripped. The literal \<open>..\<close> is not a relative path
  for \<open>isRelativePath\<close> and is rewritten all the same.
\<close>

theorem visitor_type_position:
  assumes "kind (opt_ts options) n1 = 200" and "kind (opt_ts options) n2 = 204"
    and "length rest \<le> 1"
  shows "fst (visitor P options ctx f (n1 # n2 # rest) (StringLiteral s)) =
           (if s \<noteq> ''..'' \<and> \<not> isRelativePath s then StringLiteral s
            else if extname s = ''.json'' \<and> resolveJsonModule ctx then StringLiteral s
            else if isDirectory P options f s then
              StringLiteral (s @ ''/index'' @ opt_extname options)
            else StringLiteral
                   ((if extname s = ''.js'' then trimSuffix s ''.js'' else s) @ opt_extname options))
       \<and> \<not> isRelativePath ''..''
       \<and> fst (visitor P options ctx f (n1 # n2 # rest) (StringLiteral ''..'')) =
           StringLiteral
             ((if isDirectory P options f ''..'' then ''../index'' else ''..'') @ opt_extname options)"
proof -
  have m: "matchesTypePosition (opt_ts options) (recordRecent (StringLiteral t) (n1 # n2 # rest))" for t
    using assms by (simp add: recordRecent_three matchesTypePosition_def)
  have v: "fst (visitor P options ctx f (n1 # n2 # rest) (StringLiteral t))
           = typePositionLiteral P options ctx f t" for t
    using m by simp
  show ?thesis
    unfolding v
    by (simp add: typePositionLiteral_def ext_defs extname_dotdot not_relative_dotdot)
qed

theorem visitor_type_position_witness:
  "kind (opt_ts mjsOptions) (OtherNode 200 []) = 200
   \<and> kind (opt_ts mjsOptions) (OtherNode 204 []) = 204
   \<and> fst (visitor examplePath mjsOptions jsonContext ''/src/a.d.ts''
            [OtherNode 200 [], OtherNode 204 []] (StringLiteral ''./foo''))
       = StringLiteral ''./foo/index.mjs''
   \<and> fst (visitor examplePath mjsOptions jsonContext ''/src/a.d.ts''
            [OtherNode 200 [], OtherNode 204 []] (StringLiteral ''..''))
       = StringLiteral ''...mjs''"
proof -
  have h1: "kind (opt_ts mjsOptions) (OtherNode 200 []) = 200" by simp
  have h2: "kind (opt_ts mjsOptions) (OtherNode 204 []) = 204" by simp
  have h3: "length ([] :: Node list) \<le> 1" by simp
  have d1: "isDirectory examplePath mjsOptions ''/src/a.d.ts'' ''./foo''" by code_simp
  have d2: "\<not> isDirectory examplePath mjsOptions ''/src/a.d.ts'' ''..''" by code_simp
  have r: "isRelativePath ''./foo''" by code_simp
  have e: "extname ''./foo'' = []" by code_simp
  have o: "opt_extname mjsOptions = ''.mjs''" by code_simp
  from visitor_type_position [OF h1 h2 h3, of examplePath jsonContext "''/src/a.d.ts''" "''./foo''"]
  show ?thesis
    using h1 h2 d1 d2 r e o by simp
qed

text \<open>
  C4. The type-position branch has no exemption for \<open>.cjs\<close>: the literal \<open>./foo.cjs\<close>,
  which \<open>updateModuleSpecifier\<close> returns unchanged, becomes \<open>./foo.cjs.mjs\<close> there.
\<close>

theorem type_position_cjs_rewritten:
  "extname ''./foo.cjs'' = ''.cjs''
   \<and> updateModuleSpecifier examplePath mjsOptions jsonContext ''/src/a.d.ts'' (StringLiteral ''./foo.cjs'')
       = StringLiteral ''./foo.cjs''
   \<and> fst (visitor examplePath mjsOptions jsonContext ''/src/a.d.ts''
            [OtherNode 200 [], OtherNode 204 []] (StringLiteral ''./foo.cjs''))
       = StringLiteral ''./foo.cjs.mjs''"
  by code_simp

lemma startsWith_prefix: "startsWith s p = prefix p s"
  unfolding startsWith_def
  by (metis append_eq_conv_conj append_take_drop_id prefix_def)

lemma isRelativePath_append: "isRelativePath s \<Longrightarrow> isRelativePath (s @ x)"
  by (auto simp: isRelativePath_def startsWith_prefix)

lemma isRelativePath_strip_js:
  assumes "isRelativePath (b @ ''.js'')"
  shows "isRelativePath b"
proof -
  have a: "prefix ''./'' b" if "prefix ''./'' (b @ ''.js'')"
  proof -
    from that consider "prefix ''./'' b" | us where "''./'' = b @ us" "prefix us ''.js''"
      by (auto simp: prefix_append)
    then show ?thesis
    proof cases
      case 1 then show ?thesis .
    next
      case 2
      then show ?thesis
        by (auto simp: append_eq_Cons_conv Cons_eq_append_conv prefix_Cons)
    qed
  qed
  have b: "prefix ''../'' b" if "prefix ''../'' (b @ ''.js'')"
  proof -
    from that consider "prefix ''../'' b" | us where "''../'' = b @ us" "prefix us ''.js''"
      by (auto simp: prefix_append)
    then show ?thesis
    proof cases
      case 1 then show ?thesis .
    next
      case 2
      then show ?thesis
        by (auto simp: append_eq_Cons_conv Cons_eq_append_conv prefix_Cons)
    qed
  qed
  from assms a b show ?thesis
    by (auto simp: isRelativePath_def startsWith_prefix)
qed

lemma isRelativePath_nonempty: "isRelativePath s \<Longrightarrow> s \<noteq> []"
  by (auto simp: isRelativePath_def startsWith_def)

lemma endsWith_slash: "s \<noteq> [] \<Longrightarrow> endsWith s ''/'' \<longleftrightarrow> last s = CHR ''/''"
  by (cases s rule: rev_cases) (auto simp: endsWith_suffix suffix_def)

text \<open>The stem to which the last rule appends the extension.\<close>

lemma stem_properties:
  assumes "isRelativePath s" "\<not> endsWith s ''/''"
  defines "stem \<equiv> (if extname s = JS_EXT then trimSuffix s JS_EXT else s)"
  shows "isRelativePath stem \<and> stem \<noteq> [] \<and> last stem \<noteq> CHR ''/''"
proof (cases "extname s = JS_EXT \<and> endsWith s JS_EXT")
  case False
  then have "stem = s"
    by (auto simp: stem_def trimSuffix_def)
  then show ?thesis
    using assms(1,2) isRelativePath_nonempty endsWith_slash by auto
next
  case True
  then obtain b where s: "s = b @ ''.js''"
    by (auto simp: JS_EXT_def dest: endsWith_split)
  with True have "stem = b"
    by (simp add: stem_def JS_EXT_def trimSuffix_append)
  moreover have "b \<noteq> [] \<and> last b \<noteq> CHR ''/''"
    using True by (auto simp: s extname_js JS_EXT_def split: if_splits)
  moreover have "isRelativePath b"
    using assms(1) s isRelativePath_strip_js by simp
  ultimately show ?thesis by simp
qed

lemma update_cjs_file:
  assumes "isRelativePath stem" "stem \<noteq> []" "last stem \<noteq> CHR ''/''"
  shows "updateModuleSpecifier P options ctx f (StringLiteral (stem @ ''.cjs''))
         = StringLiteral (stem @ ''.cjs'')"
  using assms by (simp add: isRelativePath_append extname_cjs)

lemma update_js_file:
  assumes "isRelativePath stem" "stem \<noteq> []" "last stem \<noteq> CHR ''/''"
    and "opt_extname options = ''.js''"
    and "\<not> isDirectory P options f (stem @ ''.js'')"
  shows "updateModuleSpecifier P options ctx f (StringLiteral (stem @ ''.js''))
         = StringLiteral (stem @ ''.js'')"
  using assms by (simp add: isRelativePath_append extname_js ext_defs trimSuffix_append)

lemma updateModuleSpecifier_cases:
  obtains (same) "updateModuleSpecifier P options ctx f (StringLiteral s) = StringLiteral s"
  | (dir) "isRelativePath s"
      "updateModuleSpecifier P options ctx f (StringLiteral s)
       = StringLiteral ((s @ ''/index'') @ opt_extname options)"
  | (appended) "isRelativePath s"
      "updateModuleSpecifier P options ctx f (StringLiteral s)
       = StringLiteral ((if extname s = JS_EXT then trimSuffix s JS_EXT else s) @ opt_extname options)"
proof (cases "\<not> isRelativePath s \<or> extname s = ''.cjs''
              \<or> (\<not> isDirectory P options f s \<and> extname s = JSON_EXT \<and> resolveJsonModule ctx)")
  case True
  then have "updateModuleSpecifier P options ctx f (StringLiteral s) = StringLiteral s"
    by auto
  then show ?thesis by (rule same)
next
  case False
  show ?thesis
  proof (cases "isDirectory P options f s")
    case True
    with False show ?thesis by (intro dir) auto
  next
    case nd: False
    with False show ?thesis by (intro appended) auto
  qed
qed

text \<open>
  C8, as amended. The specifier \<open>./foo\<close>, when it denotes a directory, is rewritten to
  \<open>./foo/index\<close> followed by the script extension. For a specifier that does not end in
  \<open>/\<close>, rewriting the rewritten specifier again changes nothing when the script
  extension is \<open>.cjs\<close>, and when it is \<open>.js\<close> and the rewritten specifier does not name
  a directory. The claim as written promises this for every extension; with \<open>.mjs\<close> the
  second pass appends the extension again.
\<close>

theorem updateModuleSpecifier_again:
  "(isDirectory P options f ''./foo'' \<longrightarrow>
      updateModuleSpecifier P options ctx f (StringLiteral ''./foo'')
        = StringLiteral (''./foo/index'' @ opt_extname options))
   \<and> (opt_extname options = ''.cjs'' \<and> \<not> endsWith s ''/'' \<longrightarrow>
        updateModuleSpecifier P options ctx f
          (updateModuleSpecifier P options ctx f (StringLiteral s))
        = updateModuleSpecifier P options ctx f (StringLiteral s))
   \<and> (opt_extname options = ''.js'' \<and> \<not> endsWith s ''/''
      \<and> (\<forall>r. updateModuleSpecifier P options ctx f (StringLiteral s) = StringLiteral r \<and> r \<noteq> s
             \<longrightarrow> \<not> isDirectory P options f r) \<longrightarrow>
        updateModuleSpecifier P options ctx f
          (updateModuleSpecifier P options ctx f (StringLiteral s))
        = updateModuleSpecifier P options ctx f (StringLiteral s))"
proof (intro conjI impI)
  assume "isDirectory P options f ''./foo''"
  moreover have "isRelativePath ''./foo''" "extname ''./foo'' = []"
    by code_simp+
  ultimately show "updateModuleSpecifier P options ctx f (StringLiteral ''./foo'')
        = StringLiteral (''./foo/index'' @ opt_extname options)"
    by simp
next
  assume a: "opt_extname options = ''.cjs'' \<and> \<not> endsWith s ''/''"
  let ?U = "updateModuleSpecifier P options ctx f"
  consider (same) "?U (StringLiteral s) = StringLiteral s"
    | (dir) "isRelativePath s" "?U (StringLiteral s) = StringLiteral ((s @ ''/index'') @ ''.cjs'')"
    | (appended) "isRelativePath s"
        "?U (StringLiteral s)
         = StringLiteral ((if extname s = JS_EXT then trimSuffix s JS_EXT else s) @ ''.cjs'')"
    using a updateModuleSpecifier_cases [of P options ctx f s] by metis
  then show "?U (?U (StringLiteral s)) = ?U (StringLiteral s)"
  proof cases
    case same
    then show ?thesis by simp
  next
    case dir
    have "?U (StringLiteral ((s @ ''/index'') @ ''.cjs'')) = StringLiteral ((s @ ''/index'') @ ''.cjs'')"
      using dir(1) by (intro update_cjs_file) (simp_all add: isRelativePath_append)
    then show ?thesis using dir(2) by simp
  next
    case appended
    from stem_properties [OF appended(1)] a
    have "?U (StringLiteral ((if extname s = JS_EXT then trimSuffix s JS_EXT else s) @ ''.cjs''))
          = StringLiteral ((if extname s = JS_EXT then trimSuffix s JS_EXT else s) @ ''.cjs'')"
      by (intro update_cjs_file) simp_all
    then show ?thesis using appended(2) by simp
  qed
next
  assume a: "opt_extname options = ''.js'' \<and> \<not> endsWith s ''/''
      \<and> (\<forall>r. updateModuleSpecifier P options ctx f (StringLiteral s) = StringLiteral r \<and> r \<noteq> s
             \<longrightarrow> \<not> isDirectory P options f r)"
  let ?U = "updateModuleSpecifier P options ctx f"
  consider (same) "?U (StringLiteral s) = StringLiteral s"
    | (dir) "isRelativePath s" "?U (StringLiteral s) = StringLiteral ((s @ ''/index'') @ ''.js'')"
    | (appended) "isRelativePath s"
        "?U (StringLiteral s)
         = StringLiteral ((if extname s = JS_EXT then trimSuffix s JS_EXT else s) @ ''.js'')"
    using a updateModuleSpecifier_cases [of P options ctx f s] by metis
  then show "?U (?U (StringLiteral s)) = ?U (StringLiteral s)"
  proof cases
    case same
    then show ?thesis by simp
  next
    case dir
    from a dir(2) have nd: "\<not> isDirectory P options f ((s @ ''/index'') @ ''.js'')"
      by auto
    have "?U (StringLiteral ((s @ ''/index'') @ ''.js'')) = StringLiteral ((s @ ''/index'') @ ''.js'')"
      using dir(1) a nd by (intro update_js_file) (simp_all add: isRelativePath_append)
    then show ?thesis using dir(2) by simp
  next
    case appended
    let ?stem = "if extname s = JS_EXT then trimSuffix s JS_EXT else s"
    show ?thesis
    proof (cases "?stem @ ''.js'' = s")
      case True
      then show ?thesis using appended(2) by simp
    next
      case False
      with a appended(2) have nd: "\<not> isDirectory P options f (?stem @ ''.js'')"
        by auto
      from stem_properties [OF appended(1)] a nd
      have "?U (StringLiteral (?stem @ ''.js'')) = StringLiteral (?stem @ ''.js'')"
        by (intro update_js_file) simp_all
      then show ?thesis using appended(2) by simp
    qed
  qed
qed

theorem updateModuleSpecifier_again_witness:
  "isDirectory examplePath cjsOptions ''/src/a.ts'' ''./foo''
   \<and> opt_extname cjsOptions = ''.cjs''
   \<and> opt_extname jsOptions = ''.js''
   \<and> \<not> endsWith ''./foo'' ''/''
   \<and> updateModuleSpecifier examplePath cjsOptions jsonContext ''/src/a.ts'' (StringLiteral ''./foo'')
       = StringLiteral ''./foo/index.cjs''
   \<and> updateModuleSpecifier examplePath cjsOptions jsonContext ''/src/a.ts''
         (StringLiteral ''./foo/index.cjs'')
       = StringLiteral ''./foo/index.cjs''
   \<and> updateModuleSpecifier examplePath jsOptions jsonContext ''/src/a.ts'' (StringLiteral ''./foo'')
       = StringLiteral ''./foo/index.js''
   \<and> \<not> isDirectory examplePath jsOptions ''/src/a.ts'' ''./foo/index.js''
   \<and> updateModuleSpecifier examplePath jsOptions jsonContext ''/src/a.ts''
         (StringLiteral ''./foo/index.js'')
       = StringLiteral ''./foo/index.js''"
proof -
  let ?Uc = "updateModuleSpecifier examplePath cjsOptions jsonContext ''/src/a.ts''"
  let ?Uj = "updateModuleSpecifier examplePath jsOptions jsonContext ''/src/a.ts''"
  have d: "isDirectory examplePath cjsOptions ''/src/a.ts'' ''./foo''" by code_simp
  have c: "opt_extname cjsOptions = ''.cjs''" by code_simp
  have j: "opt_extname jsOptions = ''.js''" by code_simp
  have e: "\<not> endsWith ''./foo'' ''/''" by code_simp
  have nd: "\<not> isDirectory examplePath jsOptions ''/src/a.ts'' ''./foo/index.js''" by code_simp
  have uj: "?Uj (StringLiteral ''./foo'') = StringLiteral ''./foo/index.js''" by code_simp
  have hyp: "\<forall>r. ?Uj (StringLiteral ''./foo'') = StringLiteral r \<and> r \<noteq> ''./foo''
               \<longrightarrow> \<not> isDirectory examplePath jsOptions ''/src/a.ts'' r"
    using uj nd by simp
  note t1 = updateModuleSpecifier_again [where P = examplePath and options = cjsOptions
      and ctx = jsonContext and f = "''/src/a.ts''" and s = "''./foo''"]
  note t2 = updateModuleSpecifier_again [where P = examplePath and options = jsOptions
      and ctx = jsonContext and f = "''/src/a.ts''" and s = "''./foo''"]
  from t1 d c have uc: "?Uc (StringLiteral ''./foo'') = StringLiteral ''./foo/index.cjs''"
    by simp
  from t1 c e have "?Uc (?Uc (StringLiteral ''./foo'')) = ?Uc (StringLiteral ''./foo'')"
    by blast
  then have uc2: "?Uc (StringLiteral ''./foo/index.cjs'') = StringLiteral ''./foo/index.cjs''"
    unfolding uc .
  from t2 j e hyp have "?Uj (?Uj (StringLiteral ''./foo'')) = ?Uj (StringLiteral ''./foo'')"
    by blast
  then have uj2: "?Uj (StringLiteral ''./foo/index.js'') = StringLiteral ''./foo/index.js''"
    unfolding uj .
  from d c j e uc uc2 uj nd uj2 show ?thesis
    by blast
qed

theorem updateModuleSpecifier_not_stable:
  "isDirectory examplePath mjsOptions ''/src/a.ts'' ''./foo''
   \<and> updateModuleSpecifier examplePath mjsOptions jsonContext ''/src/a.ts'' (StringLiteral ''./foo'')
       = StringLiteral ''./foo/index.mjs''
   \<and> updateModuleSpecifier examplePath mjsOptions jsonContext ''/src/a.ts''
       (StringLiteral ''./foo/index.mjs'')
       = StringLiteral ''./foo/index.mjs.mjs''
   \<and> updateModuleSpecifier examplePath mjsOptions jsonContext ''/src/a.ts''
         (updateModuleSpecifier examplePath mjsOptions jsonContext ''/src/a.ts''
            (StringLiteral ''./foo''))
       \<noteq> updateModuleSpecifier examplePath mjsOptions jsonContext ''/src/a.ts''
           (StringLiteral ''./foo'')"
  by code_simp

end
